theory Spec2Isabelle
  imports Complex_Main "HOL-Library.Stream"
begin

section \<open>Numbers, errors and the random sources\<close>

text \<open>
  The simulator computes with Python floats. They are idealised here as real numbers:
  every operation is exact, and no input is infinite or NaN. Two things follow. A value
  is only as close to the program's as float rounding allows, so a value rounded to one
  decimal can fall on the other side of a tie (95.0 percent of 101.0 is 95.9 in the
  program and 96.0 here); rows are therefore characterised below up to the rounding
  bound, and by equations only at concrete inputs where both agree. And a float beyond
  the float range is infinite in the program; \<open>py_int\<close> below accounts for that at the
  conversion to an integer, and the statements that a call returns are made for inputs of
  moderate size, where no intermediate result leaves the range either.

  The exceptions that can leave the reading functions: \<^verbatim>\<open>numpy.random.normal\<close> raises
  \<^verbatim>\<open>ValueError\<close> on a negative scale, and \<^verbatim>\<open>int()\<close> raises \<^verbatim>\<open>TypeError\<close> on a
  complex number and \<^verbatim>\<open>OverflowError\<close> on an infinite float. Indexing a list out of
  range raises \<^verbatim>\<open>IndexError\<close>.
\<close>

datatype error = ValueError | TypeError | OverflowError | IndexError

text \<open>The largest float, \<^verbatim>\<open>sys.float_info.max\<close>, and the inputs called moderate below.\<close>

definition float_max :: real where
  "float_max = 2 ^ 1024 - 2 ^ 971"

definition moderate :: "real \<Rightarrow> bool" where
  "moderate x \<longleftrightarrow> \<bar>x\<bar> \<le> 10 ^ 50"

text \<open>
  \<^verbatim>\<open>x ** 0.5\<close> is a float when \<open>x\<close> is not negative and a complex number otherwise, so a
  value that went through the power is one or the other.
\<close>

datatype pynum = PyFloat real | PyComplex complex

definition py_pow_half :: "real \<Rightarrow> pynum" where
  "py_pow_half x = (if 0 \<le> x then PyFloat (sqrt x) else PyComplex (csqrt (of_real x)))"

text \<open>\<^verbatim>\<open>a * v\<close> for a float \<open>a\<close>, and \<^verbatim>\<open>v * a\<close>.\<close>

fun py_mul :: "real \<Rightarrow> pynum \<Rightarrow> pynum" where
  "py_mul a (PyFloat b) = PyFloat (a * b)"
| "py_mul a (PyComplex z) = PyComplex (of_real a * z)"

fun py_mul_float :: "pynum \<Rightarrow> real \<Rightarrow> pynum" where
  "py_mul_float (PyFloat b) a = PyFloat (b * a)"
| "py_mul_float (PyComplex z) a = PyComplex (z * of_real a)"

text \<open>
  \<^verbatim>\<open>int(v)\<close>: truncation towards zero of a float, \<^verbatim>\<open>OverflowError\<close> when the float
  is beyond the float range (infinite in the program), \<^verbatim>\<open>TypeError\<close> on a complex
  number.
\<close>

definition trunc :: "real \<Rightarrow> int" where
  "trunc x = (if 0 \<le> x then \<lfloor>x\<rfloor> else \<lceil>x\<rceil>)"

fun py_int :: "pynum \<Rightarrow> error + int" where
  "py_int (PyFloat x) = (if float_max < \<bar>x\<bar> then Inl OverflowError else Inr (trunc x))"
| "py_int (PyComplex z) = Inl TypeError"

fun is_float :: "pynum \<Rightarrow> bool" where
  "is_float (PyFloat x) = True"
| "is_float (PyComplex z) = False"

text \<open>The value of a \<open>pynum\<close> as a complex number, and its magnitude.\<close>

fun to_complex :: "pynum \<Rightarrow> complex" where
  "to_complex (PyFloat x) = of_real x"
| "to_complex (PyComplex z) = z"

definition magnitude :: "pynum \<Rightarrow> real" where
  "magnitude v = cmod (to_complex v)"

text \<open>
  \<^verbatim>\<open>round(x, 1)\<close>: the nearest multiple of one tenth, a tie going to the even
  last digit.
\<close>

definition py_round1 :: "real \<Rightarrow> real" where
  "py_round1 x =
     (let y = x * 10;
          f = \<lfloor>y\<rfloor>;
          d = y - of_int f
      in of_int (if d < 1 / 2 then f
                 else if 1 / 2 < d then f + 1
                 else if even f then f else f + 1) / 10)"

text \<open>
  The two global generators: \<^verbatim>\<open>numpy.random\<close> (field \<open>normals\<close>, the standard normal
  variates it will produce) and \<^verbatim>\<open>random\<close> (field \<open>units\<close>, the values of
  \<^verbatim>\<open>random()\<close> behind \<^verbatim>\<open>uniform\<close>, and field \<open>picks\<close>, the indices behind
  \<^verbatim>\<open>choice\<close>). A draw takes the head of a stream and leaves the tail.
\<close>

record rng =
  normals :: "real stream"
  units :: "real stream"
  picks :: "nat stream"

definition np_random_normal :: "real \<Rightarrow> real \<Rightarrow> rng \<Rightarrow> error + (real \<times> rng)" where
  "np_random_normal loc scale r =
     (if scale < 0 then Inl ValueError
      else Inr (loc + scale * shd (normals r), r\<lparr>normals := stl (normals r)\<rparr>))"

definition random_uniform :: "real \<Rightarrow> real \<Rightarrow> rng \<Rightarrow> real \<times> rng" where
  "random_uniform a b r = (a + (b - a) * shd (units r), r\<lparr>units := stl (units r)\<rparr>)"

definition random_choice :: "int list \<Rightarrow> rng \<Rightarrow> int \<times> rng" where
  "random_choice xs r = (xs ! (shd (picks r) mod length xs), r\<lparr>picks := stl (picks r)\<rparr>)"

section \<open>The gauge and its calibration tables\<close>

text \<open>\<^verbatim>\<open>d.get(key, default)\<close> never raises.\<close>

definition dict_get :: "('k \<rightharpoonup> 'v) \<Rightarrow> 'k \<Rightarrow> 'v \<Rightarrow> 'v" where
  "dict_get d key dflt = (case d key of Some v \<Rightarrow> v | None \<Rightarrow> dflt)"

record soil_params =
  intercept :: real
  slope :: real

record gauge =
  model :: string
  serial_number :: string
  calibration_date :: string
  std_density_count :: real
  std_moisture_count :: real
  soil_density_equations :: "string \<rightharpoonup> soil_params"
  soil_moisture_factors :: "string \<rightharpoonup> real"

definition density_table :: "(string \<times> soil_params) list" where
  "density_table =
    [(''GW (Well-graded gravel)'', \<lparr>intercept = 3200, slope = -18.5\<rparr>),
     (''GP (Poorly graded gravel)'', \<lparr>intercept = 3150, slope = -18.0\<rparr>),
     (''GM (Silty gravel)'', \<lparr>intercept = 4000, slope = -25.0\<rparr>),
     (''GC (Clayey gravel)'', \<lparr>intercept = 4100, slope = -26.0\<rparr>),
     (''SW (Well-graded sand)'', \<lparr>intercept = 3150, slope = -17.0\<rparr>),
     (''SP (Poorly graded sand)'', \<lparr>intercept = 3100, slope = -16.5\<rparr>),
     (''SM (Silty sand)'', \<lparr>intercept = 5800, slope = -42.0\<rparr>),
     (''SC (Clayey sand)'', \<lparr>intercept = 5000, slope = -35.0\<rparr>),
     (''ML (Silt)'', \<lparr>intercept = 4500, slope = -31.0\<rparr>),
     (''CL (Lean clay)'', \<lparr>intercept = 4200, slope = -29.0\<rparr>),
     (''OL (Organic silt/clay, low plasticity)'', \<lparr>intercept = 4600, slope = -32.0\<rparr>),
     (''MH (Elastic silt)'', \<lparr>intercept = 4400, slope = -30.0\<rparr>),
     (''CH (Fat clay)'', \<lparr>intercept = 4300, slope = -29.5\<rparr>),
     (''OH (Organic silt/clay, high plasticity)'', \<lparr>intercept = 4700, slope = -33.0\<rparr>),
     (''PT (Peat)'', \<lparr>intercept = 5000, slope = -35.0\<rparr>),
     (''Type II (Aggregate Base)'', \<lparr>intercept = 4000, slope = -25.0\<rparr>),
     (''Asphalt'', \<lparr>intercept = 3000, slope = -16.0\<rparr>),
     (''Concrete'', \<lparr>intercept = 2800, slope = -15.0\<rparr>)]"

definition moisture_table :: "(string \<times> real) list" where
  "moisture_table =
    [(''GW (Well-graded gravel)'', 1.0),
     (''GP (Poorly graded gravel)'', 1.0),
     (''GM (Silty gravel)'', 1.1),
     (''GC (Clayey gravel)'', 1.1),
     (''SW (Well-graded sand)'', 1.0),
     (''SP (Poorly graded sand)'', 1.0),
     (''SM (Silty sand)'', 1.2),
     (''SC (Clayey sand)'', 1.2),
     (''ML (Silt)'', 1.3),
     (''CL (Lean clay)'', 1.3),
     (''OL (Organic silt/clay, low plasticity)'', 1.4),
     (''MH (Elastic silt)'', 1.35),
     (''CH (Fat clay)'', 1.35),
     (''OH (Organic silt/clay, high plasticity)'', 1.4),
     (''PT (Peat)'', 1.5),
     (''Type II (Aggregate Base)'', 1.1),
     (''Asphalt'', 0.9),
     (''Concrete'', 0.8)]"

text \<open>The constructor \<^verbatim>\<open>TroxlerGaugeSimulator.__init__\<close>.\<close>

definition TroxlerGaugeSimulator :: "string \<Rightarrow> string \<Rightarrow> real \<Rightarrow> real \<Rightarrow> gauge" where
  "TroxlerGaugeSimulator model_arg serial_arg std_density_arg std_moisture_arg =
     \<lparr>model = model_arg,
      serial_number = serial_arg,
      calibration_date = ''2024-09-15'',
      std_density_count = std_density_arg,
      std_moisture_count = std_moisture_arg,
      soil_density_equations = map_of density_table,
      soil_moisture_factors = map_of moisture_table\<rparr>"

section \<open>The reading functions\<close>

text \<open>
  \<^verbatim>\<open>base_count\<close> of \<^verbatim>\<open>calculate_density_count\<close> as it stands before the randomization
  (source lines 157 to 183).
\<close>

definition density_base_count ::
  "gauge \<Rightarrow> real \<Rightarrow> string \<Rightarrow> real \<Rightarrow> string \<Rightarrow> real \<Rightarrow> pynum" where
  "density_base_count g dry_density depth measurement_time soil_type gauge_depth =
     (let soil = dict_get (soil_density_equations g) soil_type
                    \<lparr>intercept = 4986, slope = -34.6\<rparr>;
          base_count = intercept soil + slope soil * dry_density;
          base_count = (if depth = ''BS'' then base_count * 1.15
                        else base_count * (1.0 + (gauge_depth - 6) * 0.01));
          base_count = py_mul base_count (py_pow_half measurement_time);
          std_count_factor = std_density_count g / 1570
      in py_mul_float base_count std_count_factor)"

definition calculate_density_count ::
  "gauge \<Rightarrow> real \<Rightarrow> real \<Rightarrow> string \<Rightarrow> real \<Rightarrow> string \<Rightarrow> real \<Rightarrow> rng \<Rightarrow> error + (int \<times> rng)" where
  "calculate_density_count g dry_density wet_density depth measurement_time soil_type gauge_depth r =
     (let base_count = density_base_count g dry_density depth measurement_time soil_type gauge_depth;
          cv = 0.06;
          cv_adjusted = cv * (1 + dry_density / 1000);
          uniqueness_factor = sin (dry_density * 0.1) * 0.03
      in case np_random_normal 1.0 cv_adjusted r of
           Inl e \<Rightarrow> Inl e
         | Inr (noise, r1) \<Rightarrow>
             (let randomization = noise + uniqueness_factor;
                  randomization = max 0.85 (min 1.15 randomization)
              in case py_int (py_mul_float base_count randomization) of
                   Inl e \<Rightarrow> Inl e
                 | Inr count \<Rightarrow>
                     (let (jitter, r2) = random_choice [-1, 0, 1] r1;
                          count = count + jitter
                      in Inr (max 500 (min count 2000), r2))))"

text \<open>
  \<^verbatim>\<open>base_count\<close> of \<^verbatim>\<open>calculate_moisture_count\<close> before the randomization
  (source lines 217 to 227).
\<close>

definition moisture_base_count :: "gauge \<Rightarrow> real \<Rightarrow> real \<Rightarrow> string \<Rightarrow> pynum" where
  "moisture_base_count g moisture_content measurement_time soil_type =
     (let soil_factor = dict_get (soil_moisture_factors g) soil_type 1.0;
          base_count = 50 + (9.5 * moisture_content * soil_factor);
          base_count = py_mul base_count (py_pow_half measurement_time);
          std_count_factor = std_moisture_count g / 670
      in py_mul_float base_count std_count_factor)"

definition calculate_moisture_count ::
  "gauge \<Rightarrow> real \<Rightarrow> real \<Rightarrow> string \<Rightarrow> rng \<Rightarrow> error + (int \<times> rng)" where
  "calculate_moisture_count g moisture_content measurement_time soil_type r =
     (let base_count = moisture_base_count g moisture_content measurement_time soil_type;
          cv = 0.08;
          uniqueness_factor = cos (moisture_content * 0.2) * 0.04
      in case np_random_normal 1.0 cv r of
           Inl e \<Rightarrow> Inl e
         | Inr (noise, r1) \<Rightarrow>
             (let randomization = noise + uniqueness_factor;
                  randomization = max 0.82 (min 1.18 randomization)
              in case py_int (py_mul_float base_count randomization) of
                   Inl e \<Rightarrow> Inl e
                 | Inr count \<Rightarrow>
                     (let (jitter, r2) = random_choice [-1, 0, 1] r1;
                          count = count + jitter
                      in Inr (max 50 (min count 500), r2))))"

section \<open>The batch generator\<close>

text \<open>One row of the returned table, with the columns of the source's dictionary.\<close>

record test_record =
  Test_No :: nat
  Density_Count :: int
  Moisture_Count :: int
  Wet_Density :: real
  Dry_Density :: real
  Moisture_lbs :: real
  Moisture_Pct :: real
  Compaction_Pct :: real
  Done :: bool

text \<open>The first loop (source lines 266 to 273): one compaction value per test.\<close>

fun draw_compactions :: "nat \<Rightarrow> rng \<Rightarrow> error + (real list \<times> rng)" where
  "draw_compactions 0 r = Inr ([], r)"
| "draw_compactions (Suc n) r =
     (case np_random_normal 96.5 0.8 r of
        Inl e \<Rightarrow> Inl e
      | Inr (cmp, r1) \<Rightarrow>
          (let cmp = max 95.0 (min 98.0 cmp);
               cmp = py_round1 cmp
           in case draw_compactions n r1 of
                Inl e \<Rightarrow> Inl e
              | Inr (compactions, r2) \<Rightarrow> Inr (cmp # compactions, r2)))"

text \<open>
  The \<^verbatim>\<open>while v in used\<close> loops (source lines 278 to 282 with the bounds 95.0 and
  98.0, lines 298 to 302 with the bounds around the optimum). Nothing bounds the number of
  iterations in the source; here the first argument does, and \<open>None\<close> says that the loop
  was still running when it was used up.
\<close>

fun dedup_while :: "nat \<Rightarrow> real \<Rightarrow> real \<Rightarrow> real \<Rightarrow> real set \<Rightarrow> rng \<Rightarrow> (real \<times> rng) option" where
  "dedup_while 0 lo hi v used r = (if v \<in> used then None else Some (v, r))"
| "dedup_while (Suc fuel) lo hi v used r =
     (if v \<in> used then
        (let (u, r1) = random_uniform (-0.2) 0.2 r;
             v1 = py_round1 (v + u);
             v2 = max lo (min hi v1)
         in dedup_while fuel lo hi v2 used r1)
      else Some (v, r))"

text \<open>The second loop (source lines 276 to 283), over the list of compactions.\<close>

fun dedup_compactions :: "nat \<Rightarrow> real list \<Rightarrow> real set \<Rightarrow> rng \<Rightarrow> (real list \<times> rng) option" where
  "dedup_compactions fuel [] used_values r = Some ([], r)"
| "dedup_compactions fuel (c # cs) used_values r =
     (case dedup_while fuel 95.0 98.0 c used_values r of
        None \<Rightarrow> None
      | Some (c', r1) \<Rightarrow>
          (case dedup_compactions fuel cs (insert c' used_values) r1 of
             None \<Rightarrow> None
           | Some (cs', r2) \<Rightarrow> Some (c' # cs', r2)))"

text \<open>The third loop (source lines 287 to 305): the moisture values.\<close>

fun draw_moistures ::
  "nat \<Rightarrow> real \<Rightarrow> nat \<Rightarrow> real set \<Rightarrow> rng \<Rightarrow> (error + (real list \<times> rng)) option" where
  "draw_moistures fuel optimum_moisture 0 used_moisture_values r = Some (Inr ([], r))"
| "draw_moistures fuel optimum_moisture (Suc n) used_moisture_values r =
     (case np_random_normal optimum_moisture 0.8 r of
        Inl e \<Rightarrow> Some (Inl e)
      | Inr (moist, r1) \<Rightarrow>
          (let moist = max (optimum_moisture - 2.0) (min (optimum_moisture + 2.0) moist);
               moist = py_round1 moist
           in case dedup_while fuel (optimum_moisture - 2.0) (optimum_moisture + 2.0)
                     moist used_moisture_values r1 of
                None \<Rightarrow> None
              | Some (moist', r2) \<Rightarrow>
                  (case draw_moistures fuel optimum_moisture n
                          (insert moist' used_moisture_values) r2 of
                     None \<Rightarrow> None
                   | Some (Inl e) \<Rightarrow> Some (Inl e)
                   | Some (Inr (moistures, r3)) \<Rightarrow> Some (Inr (moist' # moistures, r3)))))"

text \<open>\<^verbatim>\<open>xs[i]\<close> for an index that is not negative.\<close>

definition list_get :: "'a list \<Rightarrow> nat \<Rightarrow> error + 'a" where
  "list_get xs i = (if i < length xs then Inr (xs ! i) else Inl IndexError)"

text \<open>One pass of the last loop (source lines 308 to 347), for the test number \<open>i\<close>.\<close>

definition make_record ::
  "gauge \<Rightarrow> real \<Rightarrow> string \<Rightarrow> real \<Rightarrow> string \<Rightarrow> real \<Rightarrow> real list \<Rightarrow> real list \<Rightarrow> nat \<Rightarrow> rng
     \<Rightarrow> error + (test_record \<times> rng)" where
  "make_record g max_dry_density depth_mode test_duration soil_type gauge_depth
       compactions moistures i r =
     (case list_get compactions (i - 1) of
        Inl e \<Rightarrow> Inl e
      | Inr compaction_percentage \<Rightarrow>
     (case list_get moistures (i - 1) of
        Inl e \<Rightarrow> Inl e
      | Inr moisture_content \<Rightarrow>
     (let dry_density = py_round1 ((compaction_percentage / 100) * max_dry_density);
          wet_density = py_round1 (dry_density * (1 + moisture_content / 100));
          moisture_lbs = py_round1 (wet_density - dry_density)
      in case calculate_density_count g dry_density wet_density depth_mode test_duration
                soil_type gauge_depth r of
           Inl e \<Rightarrow> Inl e
         | Inr (density_count, r1) \<Rightarrow>
        (case calculate_moisture_count g moisture_content test_duration soil_type r1 of
           Inl e \<Rightarrow> Inl e
         | Inr (moisture_count, r2) \<Rightarrow>
             Inr (\<lparr>Test_No = i,
                   Density_Count = density_count,
                   Moisture_Count = moisture_count,
                   Wet_Density = wet_density,
                   Dry_Density = dry_density,
                   Moisture_lbs = moisture_lbs,
                   Moisture_Pct = moisture_content,
                   Compaction_Pct = compaction_percentage,
                   Done = False\<rparr>, r2)))))"

fun records_loop ::
  "gauge \<Rightarrow> real \<Rightarrow> string \<Rightarrow> real \<Rightarrow> string \<Rightarrow> real \<Rightarrow> real list \<Rightarrow> real list \<Rightarrow> nat list \<Rightarrow> rng
     \<Rightarrow> error + (test_record list \<times> rng)" where
  "records_loop g max_dry_density depth_mode test_duration soil_type gauge_depth
       compactions moistures [] r = Inr ([], r)"
| "records_loop g max_dry_density depth_mode test_duration soil_type gauge_depth
       compactions moistures (i # rest) r =
     (case make_record g max_dry_density depth_mode test_duration soil_type gauge_depth
             compactions moistures i r of
        Inl e \<Rightarrow> Inl e
      | Inr (row, r1) \<Rightarrow>
          (case records_loop g max_dry_density depth_mode test_duration soil_type gauge_depth
                  compactions moistures rest r1 of
             Inl e \<Rightarrow> Inl e
           | Inr (results, r2) \<Rightarrow> Inr (row # results, r2)))"

text \<open>
  \<^verbatim>\<open>generate_sample_tests\<close>. The first argument bounds every \<^verbatim>\<open>while\<close> loop; the
  result is \<open>None\<close> when one of them did not finish, \<open>Some (Inl e)\<close> when the call
  raised \<open>e\<close>, and \<open>Some (Inr rows)\<close> when it returned the table \<open>rows\<close>.
\<close>

definition generate_sample_tests ::
  "nat \<Rightarrow> gauge \<Rightarrow> real \<Rightarrow> real \<Rightarrow> int \<Rightarrow> string \<Rightarrow> real \<Rightarrow> string \<Rightarrow> real \<Rightarrow> rng
     \<Rightarrow> (error + test_record list) option" where
  "generate_sample_tests fuel g max_dry_density optimum_moisture num_tests depth_mode
       test_duration soil_type gauge_depth r =
     (case draw_compactions (nat num_tests) r of
        Inl e \<Rightarrow> Some (Inl e)
      | Inr (compactions, r1) \<Rightarrow>
     (case dedup_compactions fuel compactions {} r1 of
        None \<Rightarrow> None
      | Some (compactions, r2) \<Rightarrow>
     (case draw_moistures fuel optimum_moisture (nat num_tests) {} r2 of
        None \<Rightarrow> None
      | Some (Inl e) \<Rightarrow> Some (Inl e)
      | Some (Inr (moistures, r3)) \<Rightarrow>
     (case records_loop g max_dry_density depth_mode test_duration soil_type gauge_depth
             compactions moistures [1 ..< Suc (nat num_tests)] r3 of
        Inl e \<Rightarrow> Some (Inl e)
      | Inr (results, r4) \<Rightarrow> Some (Inr results)))))"

section \<open>The readings with given coefficients\<close>

text \<open>
  The specification compares a reading for an unknown soil type with a call that uses the
  documented default coefficients. The two reading functions take no coefficients, so
  such a call is written out here: the body of \<^verbatim>\<open>calculate_density_count\<close> with the
  intercept and the slope given in place of the table lookup, and the body of
  \<^verbatim>\<open>calculate_moisture_count\<close> with the factor given.
\<close>

definition density_count_with_coefficients ::
  "real \<Rightarrow> real \<Rightarrow> real \<Rightarrow> real \<Rightarrow> string \<Rightarrow> real \<Rightarrow> real \<Rightarrow> rng \<Rightarrow> error + (int \<times> rng)" where
  "density_count_with_coefficients icpt slp density_standard_count dry_density depth
       measurement_time gauge_depth r =
     (let base_count = icpt + slp * dry_density;
          base_count = (if depth = ''BS'' then base_count * 1.15
                        else base_count * (1.0 + (gauge_depth - 6) * 0.01));
          base_count = py_mul base_count (py_pow_half measurement_time);
          base_count = py_mul_float base_count (density_standard_count / 1570);
          cv_adjusted = 0.06 * (1 + dry_density / 1000);
          uniqueness_factor = sin (dry_density * 0.1) * 0.03
      in case np_random_normal 1.0 cv_adjusted r of
           Inl e \<Rightarrow> Inl e
         | Inr (noise, r1) \<Rightarrow>
             (let randomization = max 0.85 (min 1.15 (noise + uniqueness_factor))
              in case py_int (py_mul_float base_count randomization) of
                   Inl e \<Rightarrow> Inl e
                 | Inr count \<Rightarrow>
                     (let (jitter, r2) = random_choice [-1, 0, 1] r1
                      in Inr (max 500 (min (count + jitter) 2000), r2))))"

definition moisture_count_with_factor ::
  "real \<Rightarrow> real \<Rightarrow> real \<Rightarrow> real \<Rightarrow> rng \<Rightarrow> error + (int \<times> rng)" where
  "moisture_count_with_factor soil_factor moisture_standard_count moisture_content
       measurement_time r =
     (let base_count = 50 + (9.5 * moisture_content * soil_factor);
          base_count = py_mul base_count (py_pow_half measurement_time);
          base_count = py_mul_float base_count (moisture_standard_count / 670);
          uniqueness_factor = cos (moisture_content * 0.2) * 0.04
      in case np_random_normal 1.0 0.08 r of
           Inl e \<Rightarrow> Inl e
         | Inr (noise, r1) \<Rightarrow>
             (let randomization = max 0.82 (min 1.18 (noise + uniqueness_factor))
              in case py_int (py_mul_float base_count randomization) of
                   Inl e \<Rightarrow> Inl e
                 | Inr count \<Rightarrow>
                     (let (jitter, r2) = random_choice [-1, 0, 1] r1
                      in Inr (max 50 (min (count + jitter) 500), r2))))"

section \<open>The base count as the specification words it\<close>

text \<open>
  The specification's steps 2 to 5 for the density count, written from its words: the
  linear base, the depth-mode factor, the square root of the duration and the calibration
  ratio. The square root of a negative duration is the complex one.
\<close>

definition spec_density_base ::
  "real \<Rightarrow> real \<Rightarrow> real \<Rightarrow> string \<Rightarrow> real \<Rightarrow> real \<Rightarrow> real \<Rightarrow> complex" where
  "spec_density_base icpt slp dry_density depth_mode gauge_depth measurement_duration
       density_standard_count =
     of_real ((icpt + slp * dry_density)
              * (if depth_mode = ''BS'' then 1.15 else 1 + (gauge_depth - 6) * 0.01))
     * csqrt (of_real measurement_duration)
     * of_real (density_standard_count / 1570)"

section \<open>Properties of the reading functions\<close>

lemma is_float_py_mul [simp]: "is_float (py_mul a v) = is_float v"
  by (cases v) simp_all

lemma is_float_py_mul_float [simp]: "is_float (py_mul_float v a) = is_float v"
  by (cases v) simp_all

lemma is_float_py_pow_half [simp]: "is_float (py_pow_half t) = (0 \<le> t)"
  by (simp add: py_pow_half_def)

lemma is_float_density_base [simp]:
  "is_float (density_base_count g dd depth t soil gd) = (0 \<le> t)"
  by (simp add: density_base_count_def Let_def)

lemma is_float_moisture_base [simp]:
  "is_float (moisture_base_count g m t soil) = (0 \<le> t)"
  by (simp add: moisture_base_count_def Let_def)

lemma py_int_cases:
  "py_int v = (if is_float v
               then (if float_max < \<bar>Re (to_complex v)\<bar> then Inl OverflowError
                     else Inr (trunc (Re (to_complex v))))
               else Inl TypeError)"
  by (cases v) simp_all

text \<open>The four ways \<^verbatim>\<open>calculate_density_count\<close> can end.\<close>

lemma density_count_cases:
  "calculate_density_count g dd wd depth t soil gd r =
     (if dd < -1000 then Inl ValueError
      else if t < 0 then Inl TypeError
      else if float_max < \<bar>Re (to_complex (py_mul_float
                   (density_base_count g dd depth t soil gd)
                   (max 0.85 (min 1.15 (1 + 0.06 * (1 + dd / 1000) * shd (normals r)
                       + sin (dd * 0.1) * 0.03)))))\<bar> then Inl OverflowError
      else Inr (max 500 (min (trunc (Re (to_complex (py_mul_float
                   (density_base_count g dd depth t soil gd)
                   (max 0.85 (min 1.15 (1 + 0.06 * (1 + dd / 1000) * shd (normals r)
                       + sin (dd * 0.1) * 0.03))))))
                 + [-1, 0, 1] ! (shd (picks r) mod 3)) 2000),
                r\<lparr>normals := stl (normals r), picks := stl (picks r)\<rparr>))"
  by (simp add: calculate_density_count_def Let_def np_random_normal_def random_choice_def
      py_int_cases)

lemma moisture_count_cases:
  "calculate_moisture_count g m t soil r =
     (if t < 0 then Inl TypeError
      else if float_max < \<bar>Re (to_complex (py_mul_float
                   (moisture_base_count g m t soil)
                   (max 0.82 (min 1.18 (1 + 0.08 * shd (normals r)
                       + cos (m * 0.2) * 0.04)))))\<bar> then Inl OverflowError
      else Inr (max 50 (min (trunc (Re (to_complex (py_mul_float
                   (moisture_base_count g m t soil)
                   (max 0.82 (min 1.18 (1 + 0.08 * shd (normals r)
                       + cos (m * 0.2) * 0.04))))))
                 + [-1, 0, 1] ! (shd (picks r) mod 3)) 500),
                r\<lparr>normals := stl (normals r), picks := stl (picks r)\<rparr>))"
  by (simp add: calculate_moisture_count_def Let_def np_random_normal_def random_choice_def
      py_int_cases)

subsection \<open>Moderate inputs stay inside the float range\<close>

lemma abs_mult_le:
  fixes a b :: real
  assumes "\<bar>a\<bar> \<le> A" "\<bar>b\<bar> \<le> B"
  shows "\<bar>a * b\<bar> \<le> A * B"
proof -
  have "0 \<le> A" using assms(1) by linarith
  then show ?thesis using assms by (simp add: abs_mult mult_mono)
qed

lemma sqrt_le_succ:
  fixes t :: real
  assumes "0 \<le> t"
  shows "sqrt t \<le> 1 + t"
proof (rule real_le_lsqrt)
  show "0 \<le> 1 + t" using assms by simp
  have "(1 + t)\<^sup>2 = 1 + 2 * t + t * t" by (simp add: power2_eq_square algebra_simps)
  moreover have "0 \<le> t * t" by simp
  ultimately show "t \<le> (1 + t)\<^sup>2" using assms by linarith
qed

lemma float_max_large: "(10 ^ 101 + 10 ^ 50) * 10 ^ 50 * (1 + 10 ^ 50) * 10 ^ 50 * 2 \<le> float_max"
  by (simp add: float_max_def)

lemma base_value_moderate:
  fixes lin fac t c rnd :: real
  assumes lin: "\<bar>lin\<bar> \<le> 10 ^ 101 + 10 ^ 50"
    and fac: "\<bar>fac\<bar> \<le> 10 ^ 50"
    and t: "0 \<le> t" "t \<le> 10 ^ 50"
    and c: "\<bar>c\<bar> \<le> 10 ^ 50"
    and rnd: "\<bar>rnd\<bar> \<le> 2"
  shows "\<bar>lin * fac * sqrt t * c * rnd\<bar> \<le> float_max"
proof -
  have s: "\<bar>sqrt t\<bar> \<le> 1 + 10 ^ 50"
    using sqrt_le_succ [OF t(1)] t by simp
  have "\<bar>lin * fac * sqrt t * c * rnd\<bar>
          \<le> (10 ^ 101 + 10 ^ 50) * 10 ^ 50 * (1 + 10 ^ 50) * 10 ^ 50 * 2"
    by (intro abs_mult_le lin fac s c rnd)
  then show ?thesis using float_max_large by linarith
qed

lemma density_base_float:
  "0 \<le> t \<Longrightarrow>
   density_base_count g dd depth t soil gd =
     PyFloat ((intercept (dict_get (soil_density_equations g) soil \<lparr>intercept = 4986, slope = -34.6\<rparr>)
               + slope (dict_get (soil_density_equations g) soil \<lparr>intercept = 4986, slope = -34.6\<rparr>) * dd)
              * (if depth = ''BS'' then 1.15 else 1 + (gd - 6) * 0.01)
              * sqrt t * (std_density_count g / 1570))"
  by (simp add: density_base_count_def Let_def py_pow_half_def)

lemma moisture_base_float:
  "0 \<le> t \<Longrightarrow>
   moisture_base_count g m t soil =
     PyFloat ((50 + 9.5 * m * dict_get (soil_moisture_factors g) soil 1.0)
              * sqrt t * (std_moisture_count g / 670))"
  by (simp add: moisture_base_count_def Let_def py_pow_half_def)

lemma depth_factor_moderate:
  fixes gd :: real
  assumes "moderate gd"
  shows "\<bar>if depth = ''BS'' then 1.15 else 1 + (gd - 6) * 0.01\<bar> \<le> 10 ^ 50"
proof -
  define B :: real where "B = 10 ^ 50"
  have B: "2 \<le> B" by (simp add: B_def)
  have g: "\<bar>gd\<bar> \<le> B" using assms by (simp add: moderate_def B_def)
  have e: "1 + (gd - 6) * 0.01 = 1 + (gd - 6) / 100" by simp
  have "- B \<le> gd" "gd \<le> B" using g by linarith+
  then have "- B \<le> 1 + (gd - 6) / 100" "1 + (gd - 6) / 100 \<le> B"
    using B by (simp_all add: field_simps)
  then have "\<bar>1 + (gd - 6) / 100\<bar> \<le> B" by (simp only: abs_le_iff) simp
  then have "\<bar>1 + (gd - 6) * 0.01\<bar> \<le> B" by (simp only: e)
  moreover have "\<bar>1.15 :: real\<bar> \<le> B" using B by simp
  ultimately show ?thesis unfolding B_def by simp
qed

lemma density_value_moderate:
  assumes t: "0 \<le> t" "moderate t"
    and dd: "moderate dd" and gd: "moderate gd"
    and std: "moderate (std_density_count g)"
    and icpt: "\<bar>intercept (dict_get (soil_density_equations g) soil
                   \<lparr>intercept = 4986, slope = -34.6\<rparr>)\<bar> \<le> 10 ^ 50"
    and slp: "\<bar>slope (dict_get (soil_density_equations g) soil
                   \<lparr>intercept = 4986, slope = -34.6\<rparr>)\<bar> \<le> 10 ^ 50"
    and rnd: "\<bar>rnd\<bar> \<le> 2"
  shows "\<not> float_max < \<bar>Re (to_complex (py_mul_float
                   (density_base_count g dd depth t soil gd) rnd))\<bar>"
proof -
  define i where "i = intercept (dict_get (soil_density_equations g) soil
                   \<lparr>intercept = 4986, slope = -34.6\<rparr>)"
  define s where "s = slope (dict_get (soil_density_equations g) soil
                   \<lparr>intercept = 4986, slope = -34.6\<rparr>)"
  have d: "\<bar>dd\<bar> \<le> 10 ^ 50" using dd by (simp add: moderate_def)
  have "\<bar>s * dd\<bar> \<le> 10 ^ 50 * 10 ^ 50"
    by (rule abs_mult_le) (use slp d in \<open>simp_all add: s_def\<close>)
  then have sd: "\<bar>s * dd\<bar> \<le> 10 ^ 101" by simp
  have "\<bar>i + s * dd\<bar> \<le> \<bar>i\<bar> + \<bar>s * dd\<bar>" by (rule abs_triangle_ineq)
  then have lin: "\<bar>i + s * dd\<bar> \<le> 10 ^ 101 + 10 ^ 50"
    using icpt sd by (simp add: i_def)
  have tt: "t \<le> 10 ^ 50" using t by (simp add: moderate_def)
  have "\<bar>std_density_count g\<bar> \<le> 10 ^ 50" using std by (simp add: moderate_def)
  then have c: "\<bar>std_density_count g / 1570\<bar> \<le> 10 ^ 50" by simp
  have "\<bar>(i + s * dd) * (if depth = ''BS'' then 1.15 else 1 + (gd - 6) * 0.01)
           * sqrt t * (std_density_count g / 1570) * rnd\<bar> \<le> float_max"
    by (rule base_value_moderate [OF lin depth_factor_moderate [OF gd] t(1) tt c rnd])
  then show ?thesis
    by (simp only: density_base_float [OF t(1)] py_mul_float.simps to_complex.simps
        Re_complex_of_real i_def s_def not_less)
qed

lemma moisture_value_moderate:
  assumes t: "0 \<le> t" "moderate t"
    and m: "moderate m"
    and std: "moderate (std_moisture_count g)"
    and fac: "\<bar>dict_get (soil_moisture_factors g) soil 1.0\<bar> \<le> 2"
    and rnd: "\<bar>rnd\<bar> \<le> 2"
  shows "\<not> float_max < \<bar>Re (to_complex (py_mul_float (moisture_base_count g m t soil) rnd))\<bar>"
proof -
  define f where "f = dict_get (soil_moisture_factors g) soil 1.0"
  have mm: "\<bar>m\<bar> \<le> 10 ^ 50" using m by (simp add: moderate_def)
  have "\<bar>9.5 * m\<bar> \<le> 10 * 10 ^ 50"
    by (rule abs_mult_le) (use mm in simp_all)
  then have "\<bar>9.5 * m * f\<bar> \<le> 10 * 10 ^ 50 * 2"
    by (rule abs_mult_le) (use fac in \<open>simp add: f_def\<close>)
  moreover have "\<bar>50 + 9.5 * m * f\<bar> \<le> 50 + \<bar>9.5 * m * f\<bar>"
    using abs_triangle_ineq [of 50 "9.5 * m * f"] by simp
  ultimately have lin: "\<bar>50 + 9.5 * m * f\<bar> \<le> 10 ^ 101 + 10 ^ 50" by simp
  have one: "\<bar>1 :: real\<bar> \<le> 10 ^ 50" by simp
  have tt: "t \<le> 10 ^ 50" using t by (simp add: moderate_def)
  have "\<bar>std_moisture_count g\<bar> \<le> 10 ^ 50" using std by (simp add: moderate_def)
  then have c: "\<bar>std_moisture_count g / 670\<bar> \<le> 10 ^ 50" by simp
  have "\<bar>(50 + 9.5 * m * f) * 1 * sqrt t * (std_moisture_count g / 670) * rnd\<bar> \<le> float_max"
    by (rule base_value_moderate [OF lin one t(1) tt c rnd])
  then have "\<bar>(50 + 9.5 * m * f) * sqrt t * (std_moisture_count g / 670) * rnd\<bar> \<le> float_max"
    by simp
  then show ?thesis
    by (simp only: moisture_base_float [OF t(1)] py_mul_float.simps to_complex.simps
        Re_complex_of_real f_def not_less)
qed

lemma density_randomization_small:
  "\<bar>max 0.85 (min 1.15 x)\<bar> \<le> (2 :: real)"
  by (simp add: abs_if max_def min_def)

lemma moisture_randomization_small:
  "\<bar>max 0.82 (min 1.18 x)\<bar> \<le> (2 :: real)"
  by (simp add: abs_if max_def min_def)

text \<open>The coefficients of the constructor's tables, and the defaults, are small.\<close>

lemma table_coefficients_small:
  "\<bar>intercept (dict_get (map_of density_table) soil \<lparr>intercept = 4986, slope = -34.6\<rparr>)\<bar> \<le> 10 ^ 50
   \<and> \<bar>slope (dict_get (map_of density_table) soil \<lparr>intercept = 4986, slope = -34.6\<rparr>)\<bar> \<le> 10 ^ 50
   \<and> \<bar>dict_get (map_of moisture_table) soil 1.0\<bar> \<le> 2"
  by (simp add: dict_get_def density_table_def moisture_table_def)

text \<open>
  On moderate inputs with a duration that is not negative and a dry density of at least
  -1000, the density count returns; likewise the moisture count.
\<close>

lemma density_count_returns:
  assumes "0 \<le> t" "-1000 \<le> dd" "moderate t" "moderate dd" "moderate gd"
    and "moderate (std_density_count g)"
    and "\<bar>intercept (dict_get (soil_density_equations g) soil
                   \<lparr>intercept = 4986, slope = -34.6\<rparr>)\<bar> \<le> 10 ^ 50"
    and "\<bar>slope (dict_get (soil_density_equations g) soil
                   \<lparr>intercept = 4986, slope = -34.6\<rparr>)\<bar> \<le> 10 ^ 50"
  shows "\<exists>c r'. calculate_density_count g dd wd depth t soil gd r = Inr (c, r')
           \<and> 500 \<le> c \<and> c \<le> 2000"
proof -
  note ok = density_value_moderate [OF assms(1) assms(3-8) density_randomization_small,
      of depth "1 + 0.06 * (1 + dd / 1000) * shd (normals r) + sin (dd * 0.1) * 0.03"]
  show ?thesis
    unfolding density_count_cases using assms(1,2) ok by simp
qed

lemma moisture_count_returns:
  assumes "0 \<le> t" "moderate t" "moderate m"
    and "moderate (std_moisture_count g)"
    and "\<bar>dict_get (soil_moisture_factors g) soil 1.0\<bar> \<le> 2"
  shows "\<exists>c r'. calculate_moisture_count g m t soil r = Inr (c, r')
           \<and> 50 \<le> c \<and> c \<le> 500"
proof -
  note ok = moisture_value_moderate [OF assms moisture_randomization_small,
      of "1 + 0.08 * shd (normals r) + cos (m * 0.2) * 0.04"]
  show ?thesis
    unfolding moisture_count_cases using assms(1) ok by simp
qed

lemma density_count_returns_constructed:
  assumes "0 \<le> t" "-1000 \<le> dd" "moderate t" "moderate dd" "moderate gd" "moderate sd"
  shows "\<exists>c r'. calculate_density_count (TroxlerGaugeSimulator mo se sd sm)
                   dd wd depth t soil gd r = Inr (c, r')
           \<and> 500 \<le> c \<and> c \<le> 2000"
  by (rule density_count_returns)
     (use assms table_coefficients_small [of soil] in \<open>simp_all add: TroxlerGaugeSimulator_def\<close>)

lemma moisture_count_returns_constructed:
  assumes "0 \<le> t" "moderate t" "moderate m" "moderate sm"
  shows "\<exists>c r'. calculate_moisture_count (TroxlerGaugeSimulator mo se sd sm)
                   m t soil r = Inr (c, r')
           \<and> 50 \<le> c \<and> c \<le> 500"
  by (rule moisture_count_returns)
     (use assms table_coefficients_small [of soil] in \<open>simp_all add: TroxlerGaugeSimulator_def\<close>)

text \<open>
  Claim C1, as the code has it. Whenever \<^verbatim>\<open>calculate_density_count\<close> returns, on any
  gauge and any input, its result is an integer between 500 and 2000; whenever
  \<^verbatim>\<open>calculate_moisture_count\<close> returns, its result is an integer between 50 and 500. On
  a constructed gauge both return, for every soil type and depth mode, when the duration
  is not negative, the dry density is at least -1000 and the numeric inputs are moderate
  (of magnitude at most 10^50).
\<close>

theorem C1_counts_clamped:
  "(\<forall>c r'. calculate_density_count g dd wd depth t soil gd r = Inr (c, r')
         \<longrightarrow> 500 \<le> c \<and> c \<le> 2000)
   \<and> (\<forall>c r'. calculate_moisture_count g m t soil r = Inr (c, r')
         \<longrightarrow> 50 \<le> c \<and> c \<le> 500)
   \<and> (0 \<le> t \<and> -1000 \<le> dd \<and> moderate t \<and> moderate dd \<and> moderate gd \<and> moderate sd \<longrightarrow>
      (\<exists>c r'. calculate_density_count (TroxlerGaugeSimulator mo se sd sm)
                 dd wd depth t soil gd r = Inr (c, r')
         \<and> 500 \<le> c \<and> c \<le> 2000))
   \<and> (0 \<le> t \<and> moderate t \<and> moderate m \<and> moderate sm \<longrightarrow>
      (\<exists>c r'. calculate_moisture_count (TroxlerGaugeSimulator mo se sd sm)
                 m t soil r = Inr (c, r')
         \<and> 50 \<le> c \<and> c \<le> 500))"
proof -
  have 1: "\<forall>c r'. calculate_density_count g dd wd depth t soil gd r = Inr (c, r')
         \<longrightarrow> 500 \<le> c \<and> c \<le> 2000"
    by (auto simp: density_count_cases split: if_splits)
  have 2: "\<forall>c r'. calculate_moisture_count g m t soil r = Inr (c, r')
         \<longrightarrow> 50 \<le> c \<and> c \<le> 500"
    by (auto simp: moisture_count_cases split: if_splits)
  show ?thesis
    using 1 2 density_count_returns_constructed [of t dd gd sd mo se sm wd depth soil r]
      moisture_count_returns_constructed [of t m sm mo se sd soil r]
    by blast
qed

text \<open>
  Claim C7, as the code has it. The reading functions do not absorb every numeric input:
  \<^verbatim>\<open>calculate_density_count\<close> raises \<^verbatim>\<open>ValueError\<close> when the dry density is below
  -1000 and \<^verbatim>\<open>TypeError\<close> when it is not and the duration is negative, and
  \<^verbatim>\<open>calculate_moisture_count\<close> raises \<^verbatim>\<open>TypeError\<close> when the duration is negative.
  On a constructed gauge both complete and return a count when the duration is not
  negative, the dry density is at least -1000 and the numeric inputs are moderate.
\<close>

theorem C7_completion:
  "(dd < -1000 \<longrightarrow> calculate_density_count g dd wd depth t soil gd r = Inl ValueError)
   \<and> (-1000 \<le> dd \<and> t < 0 \<longrightarrow>
        calculate_density_count g dd wd depth t soil gd r = Inl TypeError)
   \<and> (t < 0 \<longrightarrow> calculate_moisture_count g m t soil r = Inl TypeError)
   \<and> (0 \<le> t \<and> -1000 \<le> dd \<and> moderate t \<and> moderate dd \<and> moderate gd \<and> moderate sd \<longrightarrow>
      (\<exists>c r'. calculate_density_count (TroxlerGaugeSimulator mo se sd sm)
                 dd wd depth t soil gd r = Inr (c, r')))
   \<and> (0 \<le> t \<and> moderate t \<and> moderate m \<and> moderate sm \<longrightarrow>
      (\<exists>c r'. calculate_moisture_count (TroxlerGaugeSimulator mo se sd sm)
                 m t soil r = Inr (c, r')))"
proof -
  have 1: "dd < -1000 \<longrightarrow> calculate_density_count g dd wd depth t soil gd r = Inl ValueError"
    by (simp add: density_count_cases)
  have 2: "-1000 \<le> dd \<and> t < 0 \<longrightarrow>
        calculate_density_count g dd wd depth t soil gd r = Inl TypeError"
    by (simp add: density_count_cases)
  have 3: "t < 0 \<longrightarrow> calculate_moisture_count g m t soil r = Inl TypeError"
    by (simp add: moisture_count_cases)
  show ?thesis
    using 1 2 3 density_count_returns_constructed [of t dd gd sd mo se sm wd depth soil r]
      moisture_count_returns_constructed [of t m sm mo se sd soil r]
    by blast
qed

text \<open>
  Claim C10. Two calls of \<^verbatim>\<open>calculate_density_count\<close> that differ only in the wet
  density give the same result on the same random draws.
\<close>

theorem C10_wet_density_unused:
  "calculate_density_count g dd wd1 depth t soil gd r
     = calculate_density_count g dd wd2 depth t soil gd r"
  by (simp add: calculate_density_count_def)

lemma to_complex_py_mul [simp]: "to_complex (py_mul a v) = of_real a * to_complex v"
  by (cases v) simp_all

lemma to_complex_py_mul_float [simp]: "to_complex (py_mul_float v a) = to_complex v * of_real a"
  by (cases v) simp_all

lemma to_complex_py_pow_half [simp]: "to_complex (py_pow_half t) = csqrt (of_real t)"
  by (simp add: py_pow_half_def)

text \<open>
  Claim C4. The base count of \<^verbatim>\<open>calculate_density_count\<close> before the randomization
  is the intercept plus the slope times the dry density, times 1.15 in backscatter mode
  and times 1 + (gauge depth - 6) * 0.01 otherwise, times the square root of the
  duration, times the standard density count over 1570. It is a float exactly when the
  duration is not negative.
\<close>

theorem C4_density_base_formula:
  "to_complex (density_base_count g dd depth t soil gd)
     = spec_density_base
         (intercept (dict_get (soil_density_equations g) soil \<lparr>intercept = 4986, slope = -34.6\<rparr>))
         (slope (dict_get (soil_density_equations g) soil \<lparr>intercept = 4986, slope = -34.6\<rparr>))
         dd depth gd t (std_density_count g)
   \<and> is_float (density_base_count g dd depth t soil gd) = (0 \<le> t)"
  by (simp add: density_base_count_def spec_density_base_def Let_def)

lemma cmod_csqrt_of_real: "cmod (csqrt (of_real t)) = sqrt \<bar>t\<bar>"
  by (simp add: norm_csqrt)

lemma magnitude_density_base:
  "magnitude (density_base_count g dd depth t soil gd)
     = sqrt \<bar>t\<bar> * magnitude (density_base_count g dd depth 1 soil gd)"
  by (simp add: magnitude_def density_base_count_def Let_def norm_mult cmod_csqrt_of_real)

lemma magnitude_moisture_base:
  "magnitude (moisture_base_count g m t soil)
     = sqrt \<bar>t\<bar> * magnitude (moisture_base_count g m 1 soil)"
  by (simp add: magnitude_def moisture_base_count_def Let_def norm_mult cmod_csqrt_of_real)

lemma magnitude_nonneg: "0 \<le> magnitude v"
  by (simp add: magnitude_def)

text \<open>
  Claim C8, as the code has it. The magnitude of either base count at a duration is the
  square root of the absolute duration times its magnitude at duration 1. For durations
  0 \<le> d1 < d2 the magnitude at d2 exceeds the magnitude at d1 when the base count at
  duration 1 is not zero.
\<close>

theorem C8_duration_scaling:
  "magnitude (density_base_count g dd depth t soil gd)
     = sqrt \<bar>t\<bar> * magnitude (density_base_count g dd depth 1 soil gd)
   \<and> magnitude (moisture_base_count g m t soil)
     = sqrt \<bar>t\<bar> * magnitude (moisture_base_count g m 1 soil)
   \<and> (0 \<le> d1 \<and> d1 < d2 \<and> magnitude (density_base_count g dd depth 1 soil gd) \<noteq> 0
        \<longrightarrow> magnitude (density_base_count g dd depth d1 soil gd)
            < magnitude (density_base_count g dd depth d2 soil gd))
   \<and> (0 \<le> d1 \<and> d1 < d2 \<and> magnitude (moisture_base_count g m 1 soil) \<noteq> 0
        \<longrightarrow> magnitude (moisture_base_count g m d1 soil)
            < magnitude (moisture_base_count g m d2 soil))"
proof -
  have mono: "sqrt \<bar>d1\<bar> * k < sqrt \<bar>d2\<bar> * k" if "0 \<le> d1" "d1 < d2" "0 \<le> k" "k \<noteq> 0" for k :: real
  proof -
    have "sqrt \<bar>d1\<bar> < sqrt \<bar>d2\<bar>" using that by simp
    moreover have "0 < k" using that by simp
    ultimately show ?thesis by simp
  qed
  have d: "magnitude (density_base_count g dd depth d1 soil gd)
            < magnitude (density_base_count g dd depth d2 soil gd)"
    if "0 \<le> d1" "d1 < d2" "magnitude (density_base_count g dd depth 1 soil gd) \<noteq> 0"
    using mono [OF that(1,2) magnitude_nonneg that(3)]
      magnitude_density_base [of g dd depth d1 soil gd]
      magnitude_density_base [of g dd depth d2 soil gd] by simp
  have m: "magnitude (moisture_base_count g m d1 soil)
            < magnitude (moisture_base_count g m d2 soil)"
    if "0 \<le> d1" "d1 < d2" "magnitude (moisture_base_count g m 1 soil) \<noteq> 0"
    using mono [OF that(1,2) magnitude_nonneg that(3)]
      magnitude_moisture_base [of g m d1 soil]
      magnitude_moisture_base [of g m d2 soil] by simp
  show ?thesis
    using d m magnitude_density_base [of g dd depth t soil gd]
      magnitude_moisture_base [of g m t soil] by blast
qed

text \<open>
  Claim C3. For a soil type that is in neither table, \<^verbatim>\<open>calculate_density_count\<close>
  gives what the same body gives with the intercept 4986 and the slope -34.6, and what it
  gives when the table holds those coefficients for that soil type;
  \<^verbatim>\<open>calculate_moisture_count\<close> gives what the same body gives with the factor 1.0, and
  what it gives when the table holds that factor; all on the same random draws. The soil
  type raises nothing: on moderate inputs with a duration that is not negative and a dry
  density of at least -1000, both return.
\<close>

theorem C3_unknown_soil_defaults:
  assumes "soil \<notin> dom (soil_density_equations g)"
    and "soil \<notin> dom (soil_moisture_factors g)"
  shows "calculate_density_count g dd wd depth t soil gd r
           = density_count_with_coefficients 4986 (-34.6) (std_density_count g)
               dd depth t gd r
         \<and> calculate_moisture_count g m t soil r
           = moisture_count_with_factor 1.0 (std_moisture_count g) m t r
         \<and> calculate_density_count g dd wd depth t soil gd r
           = calculate_density_count
               (g\<lparr>soil_density_equations :=
                    (soil_density_equations g)(soil \<mapsto> \<lparr>intercept = 4986, slope = -34.6\<rparr>)\<rparr>)
               dd wd depth t soil gd r
         \<and> calculate_moisture_count g m t soil r
           = calculate_moisture_count
               (g\<lparr>soil_moisture_factors := (soil_moisture_factors g)(soil \<mapsto> 1.0)\<rparr>)
               m t soil r
         \<and> (0 \<le> t \<and> -1000 \<le> dd \<and> moderate t \<and> moderate dd \<and> moderate gd
              \<and> moderate (std_density_count g) \<longrightarrow>
              (\<exists>c r'. calculate_density_count g dd wd depth t soil gd r = Inr (c, r')))
         \<and> (0 \<le> t \<and> moderate t \<and> moderate m \<and> moderate (std_moisture_count g) \<longrightarrow>
              (\<exists>c r'. calculate_moisture_count g m t soil r = Inr (c, r')))"
proof -
  have d: "soil_density_equations g soil = None" and m: "soil_moisture_factors g soil = None"
    using assms by (auto simp: dom_def)
  have dflt: "dict_get (soil_density_equations g) soil \<lparr>intercept = 4986, slope = -34.6\<rparr>
                = \<lparr>intercept = 4986, slope = -34.6\<rparr>"
    and fac: "dict_get (soil_moisture_factors g) soil 1.0 = 1.0"
    by (simp_all add: dict_get_def d m)
  have base_d: "density_base_count g dd depth t soil gd
      = py_mul_float
          (py_mul (if depth = ''BS'' then (4986 + (-34.6) * dd) * 1.15
                   else (4986 + (-34.6) * dd) * (1.0 + (gd - 6) * 0.01))
             (py_pow_half t))
          (std_density_count g / 1570)"
    unfolding density_base_count_def dflt Let_def by simp
  have base_m: "moisture_base_count g m t soil
      = py_mul_float (py_mul (50 + (9.5 * m * 1.0)) (py_pow_half t))
          (std_moisture_count g / 670)"
    unfolding moisture_base_count_def fac Let_def by simp
  have a: "calculate_density_count g dd wd depth t soil gd r
           = density_count_with_coefficients 4986 (-34.6) (std_density_count g)
               dd depth t gd r"
    unfolding calculate_density_count_def density_count_with_coefficients_def Let_def
      base_d by (rule refl)
  have b: "calculate_moisture_count g m t soil r
           = moisture_count_with_factor 1.0 (std_moisture_count g) m t r"
    unfolding calculate_moisture_count_def moisture_count_with_factor_def Let_def
      base_m by (rule refl)
  have 1: "density_base_count g dd depth t soil gd
        = density_base_count (g\<lparr>soil_density_equations :=
                    (soil_density_equations g)(soil \<mapsto> \<lparr>intercept = 4986, slope = -34.6\<rparr>)\<rparr>)
               dd depth t soil gd"
    by (simp add: density_base_count_def dict_get_def d)
  have 2: "moisture_base_count g m t soil
        = moisture_base_count (g\<lparr>soil_moisture_factors := (soil_moisture_factors g)(soil \<mapsto> 1.0)\<rparr>)
            m t soil"
    by (simp add: moisture_base_count_def dict_get_def m)
  have 3: "calculate_density_count g dd wd depth t soil gd r
           = calculate_density_count
               (g\<lparr>soil_density_equations :=
                    (soil_density_equations g)(soil \<mapsto> \<lparr>intercept = 4986, slope = -34.6\<rparr>)\<rparr>)
               dd wd depth t soil gd r"
    unfolding calculate_density_count_def 1 [symmetric] by (rule refl)
  have 4: "calculate_moisture_count g m t soil r
           = calculate_moisture_count
               (g\<lparr>soil_moisture_factors := (soil_moisture_factors g)(soil \<mapsto> 1.0)\<rparr>)
               m t soil r"
    unfolding calculate_moisture_count_def 2 [symmetric] by (rule refl)
  have ib: "\<bar>intercept (dict_get (soil_density_equations g) soil
                   \<lparr>intercept = 4986, slope = -34.6\<rparr>)\<bar> \<le> 10 ^ 50"
    and sb: "\<bar>slope (dict_get (soil_density_equations g) soil
                   \<lparr>intercept = 4986, slope = -34.6\<rparr>)\<bar> \<le> 10 ^ 50"
    unfolding dflt by simp_all
  have fb: "\<bar>dict_get (soil_moisture_factors g) soil 1.0\<bar> \<le> 2"
    unfolding fac by simp
  have 5: "\<exists>c r'. calculate_density_count g dd wd depth t soil gd r = Inr (c, r')"
    if "0 \<le> t" "-1000 \<le> dd" "moderate t" "moderate dd" "moderate gd"
      "moderate (std_density_count g)"
    using density_count_returns [OF that ib sb, of wd depth r] by blast
  have 6: "\<exists>c r'. calculate_moisture_count g m t soil r = Inr (c, r')"
    if "0 \<le> t" "moderate t" "moderate m" "moderate (std_moisture_count g)"
    using moisture_count_returns [OF that fb, of r] by blast
  show ?thesis using a b 3 4 5 6 by blast
qed

section \<open>Rounding to one decimal\<close>


section \<open>The loops of the batch generator\<close>

lemma draw_compactions_length:
  "draw_compactions n r = Inr (cs, r') \<Longrightarrow> length cs = n"
  by (induction n arbitrary: r cs)
     (auto simp: Let_def split: sum.splits prod.splits)

lemma dedup_while_fresh:
  "dedup_while fuel lo hi v used r = Some (v', r') \<Longrightarrow> v' \<notin> used"
proof (induction fuel arbitrary: v r)
  case 0
  then show ?case by (simp split: if_splits)
next
  case (Suc fuel)
  then show ?case
    by (auto simp: Let_def split: if_splits prod.splits)
qed

lemma dedup_compactions_distinct:
  "dedup_compactions fuel cs used r = Some (cs', r')
     \<Longrightarrow> distinct cs' \<and> set cs' \<inter> used = {} \<and> length cs' = length cs"
proof (induction cs arbitrary: used r cs')
  case Nil
  then show ?case by simp
next
  case (Cons c cs)
  from Cons.prems obtain c1 r1 cs1 where
    w: "dedup_while fuel 95.0 98.0 c used r = Some (c1, r1)" and
    rest: "dedup_compactions fuel cs (insert c1 used) r1 = Some (cs1, r')" and
    out: "cs' = c1 # cs1"
    by (auto split: option.splits prod.splits)
  from Cons.IH [OF rest] have "distinct cs1" "set cs1 \<inter> insert c1 used = {}"
    "length cs1 = length cs" by simp_all
  moreover from dedup_while_fresh [OF w] have "c1 \<notin> used" .
  ultimately show ?case using out by auto
qed

lemma draw_moistures_distinct:
  "draw_moistures fuel opt n used r = Some (Inr (ms, r'))
     \<Longrightarrow> distinct ms \<and> set ms \<inter> used = {} \<and> length ms = n"
proof (induction n arbitrary: used r ms)
  case 0
  then show ?case by simp
next
  case (Suc n)
  from Suc.prems obtain m0 r1 m1 r2 ms1 where
    w: "dedup_while fuel (opt - 2.0) (opt + 2.0) m0 used r1 = Some (m1, r2)" and
    rest: "draw_moistures fuel opt n (insert m1 used) r2 = Some (Inr (ms1, r'))" and
    out: "ms = m1 # ms1"
    by (auto simp: Let_def split: option.splits prod.splits sum.splits)
  from Suc.IH [OF rest] have "distinct ms1" "set ms1 \<inter> insert m1 used = {}"
    "length ms1 = n" by simp_all
  moreover from dedup_while_fresh [OF w] have "m1 \<notin> used" .
  ultimately show ?case using out by auto
qed

lemma make_record_fields:
  assumes "make_record g mdd depth t soil gd cs ms i r = Inr (row, r')"
  shows "i - 1 < length cs" and "i - 1 < length ms"
    and "Compaction_Pct row = cs ! (i - 1)"
    and "Moisture_Pct row = ms ! (i - 1)"
    and "Dry_Density row = py_round1 (Compaction_Pct row / 100 * mdd)"
    and "Wet_Density row = py_round1 (Dry_Density row * (1 + Moisture_Pct row / 100))"
    and "Moisture_lbs row = py_round1 (Wet_Density row - Dry_Density row)"
    and "Test_No row = i" and "Done row = False"
    and "calculate_density_count g (Dry_Density row) (Wet_Density row) depth t soil gd r
           = Inr (Density_Count row, r1) \<Longrightarrow> True"
  using assms
  by (auto simp: make_record_def list_get_def Let_def split: sum.splits prod.splits if_splits)

lemma records_loop_columns:
  "records_loop g mdd depth t soil gd cs ms idx r = Inr (rows, r')
     \<Longrightarrow> map Compaction_Pct rows = map (\<lambda>i. cs ! (i - 1)) idx
       \<and> map Moisture_Pct rows = map (\<lambda>i. ms ! (i - 1)) idx"
proof (induction idx arbitrary: r rows)
  case Nil
  then show ?case by simp
next
  case (Cons i idx)
  from Cons.prems obtain row r1 rows1 where
    mk: "make_record g mdd depth t soil gd cs ms i r = Inr (row, r1)" and
    rest: "records_loop g mdd depth t soil gd cs ms idx r1 = Inr (rows1, r')" and
    out: "rows = row # rows1"
    by (auto split: sum.splits prod.splits)
  show ?case
    using Cons.IH [OF rest] make_record_fields(3,4) [OF mk] out by simp
qed


lemma map_nth_pred: "length xs = n \<Longrightarrow> map (\<lambda>i. xs ! (i - 1)) [1 ..< Suc n] = xs"
proof -
  assume n: "length xs = n"
  have "[1 ..< Suc n] = map Suc [0 ..< n]"
    by (simp add: map_Suc_upt)
  then have "map (\<lambda>i. xs ! (i - 1)) [1 ..< Suc n] = map (\<lambda>i. xs ! i) [0 ..< n]"
    by (simp add: comp_def)
  then show ?thesis using n map_nth [of xs] by simp
qed

text \<open>What a returned table was built from.\<close>

lemma generate_sample_tests_returns:
  assumes "generate_sample_tests fuel g mdd opt num depth t soil gd r = Some (Inr rows)"
  shows "\<exists>cs0 r1 cs r2 ms r3 r4.
           draw_compactions (nat num) r = Inr (cs0, r1)
         \<and> dedup_compactions fuel cs0 {} r1 = Some (cs, r2)
         \<and> draw_moistures fuel opt (nat num) {} r2 = Some (Inr (ms, r3))
         \<and> records_loop g mdd depth t soil gd cs ms [1 ..< Suc (nat num)] r3 = Inr (rows, r4)"
  using assms unfolding generate_sample_tests_def
  by (fastforce simp del: upt_Suc split: sum.splits option.splits prod.splits)

section \<open>Concrete runs\<close>

text \<open>A large normal variate drives the randomization factor into its upper bound.\<close>

lemma density_randomization_high:
  fixes dd n :: real
  assumes "0 \<le> dd" "3 \<le> n"
  shows "max 0.85 (min 1.15 (1 + 0.06 * (1 + dd / 1000) * n + sin (dd * 0.1) * 0.03)) = 1.15"
proof -
  define p where "p = (1 + dd / 1000) * n"
  define s where "s = sin (dd * 0.1)"
  have s: "-1 \<le> s" by (simp add: s_def)
  have "1 * 3 \<le> (1 + dd / 1000) * n"
    by (rule mult_mono) (use assms in simp_all)
  then have p: "3 \<le> p" by (simp add: p_def)
  have e: "1 + 0.06 * (1 + dd / 1000) * n + sin (dd * 0.1) * 0.03 = 1 + 0.06 * p + s * 0.03"
    by (simp add: p_def s_def)
  have "(1.15::real) \<le> 1 + 0.06 * p + s * 0.03"
    using s p by simp
  then show ?thesis unfolding e by simp
qed

lemma moisture_randomization_high:
  fixes m n :: real
  assumes "3 \<le> n"
  shows "max 0.82 (min 1.18 (1 + 0.08 * n + cos (m * 0.2) * 0.04)) = 1.18"
proof -
  define s where "s = cos (m * 0.2)"
  have s: "-1 \<le> s" by (simp add: s_def)
  have "(1.18::real) \<le> 1 + 0.08 * n + s * 0.04"
    using s assms by simp
  then show ?thesis unfolding s_def by simp
qed

lemma density_count_high:
  assumes "0 \<le> dd" "3 \<le> shd (normals r)" "0 \<le> t"
    and "\<not> float_max < \<bar>Re (to_complex (py_mul_float
                   (density_base_count g dd depth t soil gd) 1.15))\<bar>"
  shows "calculate_density_count g dd wd depth t soil gd r
    = Inr (max 500 (min (trunc (Re (to_complex (py_mul_float
                   (density_base_count g dd depth t soil gd) 1.15)))
                 + [-1, 0, 1] ! (shd (picks r) mod 3)) 2000),
           r\<lparr>normals := stl (normals r), picks := stl (picks r)\<rparr>)"
  unfolding density_count_cases density_randomization_high [OF assms(1,2)]
  using assms by simp

lemma moisture_count_high:
  assumes "3 \<le> shd (normals r)" "0 \<le> t"
    and "\<not> float_max < \<bar>Re (to_complex (py_mul_float
                   (moisture_base_count g m t soil) 1.18))\<bar>"
  shows "calculate_moisture_count g m t soil r
    = Inr (max 50 (min (trunc (Re (to_complex (py_mul_float
                   (moisture_base_count g m t soil) 1.18)))
                 + [-1, 0, 1] ! (shd (picks r) mod 3)) 500),
           r\<lparr>normals := stl (normals r), picks := stl (picks r)\<rparr>)"
  unfolding moisture_count_cases moisture_randomization_high [OF assms(1)]
  using assms by simp

lemma density_base_CL:
  "density_base_count (TroxlerGaugeSimulator ''3440'' ''12345'' 1570 670) dd ''DS'' 1
      ''CL (Lean clay)'' 8 = PyFloat ((4200 - 29 * dd) * (102 / 100))"
  by (simp add: density_base_count_def Let_def dict_get_def TroxlerGaugeSimulator_def
      density_table_def py_pow_half_def)

lemma moisture_base_CL:
  "moisture_base_count (TroxlerGaugeSimulator ''3440'' ''12345'' 1570 670) m 1
      ''CL (Lean clay)'' = PyFloat (50 + 95 / 10 * m * (13 / 10))"
  by (simp add: moisture_base_count_def Let_def dict_get_def TroxlerGaugeSimulator_def
      moisture_table_def py_pow_half_def)


lemma run_offgrid:
  "generate_sample_tests 0 (TroxlerGaugeSimulator ''3440'' ''12345'' 1570 670) 120 8.04 1 ''DS'' 1
      ''CL (Lean clay)'' 8
      \<lparr>normals = 0 ## -3 ## sconst 10, units = sconst 0, picks = sconst 1\<rparr>
   = Some (Inr [\<lparr>Test_No = 1, Density_Count = 987, Moisture_Count = 146, Wet_Density = 122.7,
           Dry_Density = 115.8, Moisture_lbs = 6.9, Moisture_Pct = 6, Compaction_Pct = 96.5,
           Done = False\<rparr>])"
  by (simp add: generate_sample_tests_def np_random_normal_def
      make_record_def list_get_def Let_def py_round1_def density_count_high
      moisture_count_high density_base_CL moisture_base_CL trunc_def float_max_def)

lemma run_two_tests:
  "generate_sample_tests 1 (TroxlerGaugeSimulator ''3440'' ''12345'' 1570 670) 120 8 2 ''DS'' 1
      ''CL (Lean clay)'' 8
      \<lparr>normals = sconst 10, units = sconst 0, picks = sconst 1\<rparr>
   = Some (Inr [\<lparr>Test_No = 1, Density_Count = 926, Moisture_Count = 204, Wet_Density = 129.4,
           Dry_Density = 117.6, Moisture_lbs = 11.8, Moisture_Pct = 10, Compaction_Pct = 98,
           Done = False\<rparr>,
         \<lparr>Test_No = 2, Density_Count = 933, Moisture_Count = 201, Wet_Density = 128.9,
           Dry_Density = 117.4, Moisture_lbs = 11.5, Moisture_Pct = 9.8, Compaction_Pct = 97.8,
           Done = False\<rparr>])"
  by (simp add: generate_sample_tests_def np_random_normal_def random_uniform_def
      numeral_2_eq_2 upt_rec
      make_record_def list_get_def Let_def py_round1_def density_count_high
      moisture_count_high density_base_CL moisture_base_CL trunc_def float_max_def)

section \<open>Properties of the batch generator\<close>

text \<open>
  Claim C2. In every table that \<^verbatim>\<open>generate_sample_tests\<close> returns, the compaction
  percentages are pairwise distinct and so are the moisture percentages.
\<close>

theorem C2_batch_values_distinct:
  assumes "generate_sample_tests fuel g mdd opt num depth t soil gd r = Some (Inr rows)"
  shows "distinct (map Compaction_Pct rows) \<and> distinct (map Moisture_Pct rows)"
proof -
  from generate_sample_tests_returns [OF assms] obtain cs0 r1 cs r2 ms r3 r4 where
    draw: "draw_compactions (nat num) r = Inr (cs0, r1)" and
    dedup: "dedup_compactions fuel cs0 {} r1 = Some (cs, r2)" and
    moist: "draw_moistures fuel opt (nat num) {} r2 = Some (Inr (ms, r3))" and
    loop: "records_loop g mdd depth t soil gd cs ms [1 ..< Suc (nat num)] r3 = Inr (rows, r4)"
    by blast
  have cs: "distinct cs" "length cs = nat num"
    using dedup_compactions_distinct [OF dedup] draw_compactions_length [OF draw] by simp_all
  have ms: "distinct ms" "length ms = nat num"
    using draw_moistures_distinct [OF moist] by simp_all
  have "map Compaction_Pct rows = cs" "map Moisture_Pct rows = ms"
    using records_loop_columns [OF loop] map_nth_pred [OF cs(2)] map_nth_pred [OF ms(2)]
    by simp_all
  then show ?thesis using cs(1) ms(1) by simp
qed

theorem C2_batch_values_distinct_witness:
  "generate_sample_tests 1 (TroxlerGaugeSimulator ''3440'' ''12345'' 1570 670) 120 8 2 ''DS'' 1
      ''CL (Lean clay)'' 8
      \<lparr>normals = sconst 10, units = sconst 0, picks = sconst 1\<rparr>
   = Some (Inr [\<lparr>Test_No = 1, Density_Count = 926, Moisture_Count = 204, Wet_Density = 129.4,
           Dry_Density = 117.6, Moisture_lbs = 11.8, Moisture_Pct = 10, Compaction_Pct = 98,
           Done = False\<rparr>,
         \<lparr>Test_No = 2, Density_Count = 933, Moisture_Count = 201, Wet_Density = 128.9,
           Dry_Density = 117.4, Moisture_lbs = 11.5, Moisture_Pct = 9.8, Compaction_Pct = 97.8,
           Done = False\<rparr>])
   \<and> distinct [98, 97.8 :: real] \<and> distinct [10, 9.8 :: real]"
  using C2_batch_values_distinct [OF run_two_tests] run_two_tests by simp




text \<open>
  Claim C6 at an optimum moisture that is not a multiple of one tenth. With the optimum
  8.04 and a low moisture draw, the value is truncated to 6.04 and then rounded to 6.0,
  which is below the lower bound 6.04.
\<close>

theorem C6_moisture_below_range:
  "generate_sample_tests 0 (TroxlerGaugeSimulator ''3440'' ''12345'' 1570 670) 120 8.04 1 ''DS'' 1
      ''CL (Lean clay)'' 8
      \<lparr>normals = 0 ## -3 ## sconst 10, units = sconst 0, picks = sconst 1\<rparr>
   = Some (Inr [\<lparr>Test_No = 1, Density_Count = 987, Moisture_Count = 146, Wet_Density = 122.7,
           Dry_Density = 115.8, Moisture_lbs = 6.9, Moisture_Pct = 6, Compaction_Pct = 96.5,
           Done = False\<rparr>])
   \<and> (6 :: real) < 8.04 - 2.0"
  using run_offgrid by simp

section \<open>The labels of the gauge\<close>

lemma density_base_count_labels [simp]:
  "density_base_count (g\<lparr>model := m, serial_number := s\<rparr>) = density_base_count g"
  by (simp add: fun_eq_iff density_base_count_def)

lemma moisture_base_count_labels [simp]:
  "moisture_base_count (g\<lparr>model := m, serial_number := s\<rparr>) = moisture_base_count g"
  by (simp add: fun_eq_iff moisture_base_count_def)

lemma calculate_density_count_labels [simp]:
  "calculate_density_count (g\<lparr>model := m, serial_number := s\<rparr>) = calculate_density_count g"
  by (simp add: fun_eq_iff calculate_density_count_def)

lemma calculate_moisture_count_labels [simp]:
  "calculate_moisture_count (g\<lparr>model := m, serial_number := s\<rparr>) = calculate_moisture_count g"
  by (simp add: fun_eq_iff calculate_moisture_count_def)

lemma make_record_labels [simp]:
  "make_record (g\<lparr>model := m, serial_number := s\<rparr>) = make_record g"
  unfolding fun_eq_iff make_record_def calculate_density_count_labels
    calculate_moisture_count_labels by simp

lemma records_loop_labels [simp]:
  "records_loop (g\<lparr>model := m, serial_number := s\<rparr>) mdd depth t soil gd cs ms idx r
     = records_loop g mdd depth t soil gd cs ms idx r"
  by (induction idx arbitrary: r) (simp_all only: records_loop.simps make_record_labels)

lemma generate_sample_tests_labels:
  "generate_sample_tests fuel (g\<lparr>model := m, serial_number := s\<rparr>) mdd opt num depth t soil gd r
     = generate_sample_tests fuel g mdd opt num depth t soil gd r"
  unfolding generate_sample_tests_def records_loop_labels by (rule refl)

lemma TroxlerGaugeSimulator_labels:
  "TroxlerGaugeSimulator m2 s2 sd sm
     = (TroxlerGaugeSimulator m1 s1 sd sm)\<lparr>model := m2, serial_number := s2\<rparr>"
  by (simp add: TroxlerGaugeSimulator_def)

text \<open>
  Claim C9. Two gauges that differ only in the model and serial number labels give the same
  density count, moisture count and table on the same arguments and the same random draws;
  so do two gauges constructed with the same two standard counts.
\<close>

theorem C9_labels_do_not_matter:
  "calculate_density_count (g\<lparr>model := m, serial_number := s\<rparr>) dd wd depth t soil gd r
     = calculate_density_count g dd wd depth t soil gd r
   \<and> calculate_moisture_count (g\<lparr>model := m, serial_number := s\<rparr>) mc t soil r
     = calculate_moisture_count g mc t soil r
   \<and> generate_sample_tests fuel (g\<lparr>model := m, serial_number := s\<rparr>) mdd opt num depth t soil gd r
     = generate_sample_tests fuel g mdd opt num depth t soil gd r
   \<and> calculate_density_count (TroxlerGaugeSimulator m1 s1 sd sm) dd wd depth t soil gd r
     = calculate_density_count (TroxlerGaugeSimulator m2 s2 sd sm) dd wd depth t soil gd r
   \<and> calculate_moisture_count (TroxlerGaugeSimulator m1 s1 sd sm) mc t soil r
     = calculate_moisture_count (TroxlerGaugeSimulator m2 s2 sd sm) mc t soil r
   \<and> generate_sample_tests fuel (TroxlerGaugeSimulator m1 s1 sd sm) mdd opt num depth t soil gd r
     = generate_sample_tests fuel (TroxlerGaugeSimulator m2 s2 sd sm) mdd opt num depth t soil gd r"
  by (simp add: generate_sample_tests_labels TroxlerGaugeSimulator_labels [of m2 s2 sd sm m1 s1])

section \<open>Concrete readings\<close>

text \<open>
  The claim C1 as it is worded fails at a negative duration: the density count raises
  \<^verbatim>\<open>TypeError\<close> and returns no integer.
\<close>

theorem C1_negative_duration_counterexample:
  "calculate_density_count (TroxlerGaugeSimulator ''3440'' ''12345'' 1570 670) 110 120 ''DS'' (-1)
      ''CL (Lean clay)'' 8 \<lparr>normals = sconst 0, units = sconst 0, picks = sconst 1\<rparr>
   = Inl TypeError"
  by (simp add: density_count_cases)

lemma sample_inputs_in_range:
  "(0 :: real) \<le> 1" "(-1000 :: real) \<le> 110" "(-1 :: real) < 0" "(-2000 :: real) < -1000"
  by simp_all

lemma sample_inputs_moderate:
  "moderate 1" "moderate 110" "moderate 8" "moderate 1570" "moderate 670"
  by (simp_all add: moderate_def)

theorem C1_counts_clamped_witness:
  "(0 :: real) \<le> 1 \<and> (-1000 :: real) \<le> 110
   \<and> moderate 1 \<and> moderate 110 \<and> moderate 8 \<and> moderate 1570 \<and> moderate 670
   \<and> (\<exists>c r'. calculate_density_count (TroxlerGaugeSimulator ''3440'' ''12345'' 1570 670)
                110 120 ''DS'' 1 ''CL (Lean clay)'' 8
                \<lparr>normals = sconst 0, units = sconst 0, picks = sconst 1\<rparr> = Inr (c, r')
         \<and> 500 \<le> c \<and> c \<le> 2000)
   \<and> (\<exists>c r'. calculate_moisture_count (TroxlerGaugeSimulator ''3440'' ''12345'' 1570 670)
                8 1 ''CL (Lean clay)''
                \<lparr>normals = sconst 0, units = sconst 0, picks = sconst 1\<rparr> = Inr (c, r')
         \<and> 50 \<le> c \<and> c \<le> 500)"
  using C1_counts_clamped [where t = 1 and dd = 110 and wd = 120 and depth = "''DS''"
      and soil = "''CL (Lean clay)''" and gd = 8 and m = 8
      and g = "TroxlerGaugeSimulator ''3440'' ''12345'' 1570 670"
      and mo = "''3440''" and se = "''12345''" and sd = 1570 and sm = 670
      and r = "\<lparr>normals = sconst 0, units = sconst 0, picks = sconst 1\<rparr>"]
    sample_inputs_in_range sample_inputs_moderate
  by blast

text \<open>
  The claim C7 as it is worded fails at its own example, a negative duration: the
  moisture count raises \<^verbatim>\<open>TypeError\<close>.
\<close>

theorem C7_negative_duration_counterexample:
  "calculate_moisture_count (TroxlerGaugeSimulator ''3440'' ''12345'' 1570 670) 8 (-1)
      ''CL (Lean clay)'' \<lparr>normals = sconst 0, units = sconst 0, picks = sconst 1\<rparr>
   = Inl TypeError"
  by (simp add: moisture_count_cases)

theorem C7_completion_witness:
  "(-2000 :: real) < -1000
   \<and> calculate_density_count (TroxlerGaugeSimulator ''3440'' ''12345'' 1570 670) (-2000) 120 ''DS'' 1 ''CL (Lean clay)'' 8
        \<lparr>normals = sconst 0, units = sconst 0, picks = sconst 1\<rparr> = Inl ValueError
   \<and> (-1000 :: real) \<le> 110 \<and> (-1 :: real) < 0
   \<and> calculate_density_count (TroxlerGaugeSimulator ''3440'' ''12345'' 1570 670) 110 120 ''DS'' (-1) ''CL (Lean clay)'' 8
        \<lparr>normals = sconst 0, units = sconst 0, picks = sconst 1\<rparr> = Inl TypeError
   \<and> calculate_moisture_count (TroxlerGaugeSimulator ''3440'' ''12345'' 1570 670) 8 (-1) ''CL (Lean clay)''
        \<lparr>normals = sconst 0, units = sconst 0, picks = sconst 1\<rparr> = Inl TypeError
   \<and> (0 :: real) \<le> 1
   \<and> moderate 1 \<and> moderate 110 \<and> moderate 8 \<and> moderate 1570 \<and> moderate 670
   \<and> (\<exists>c r'. calculate_density_count (TroxlerGaugeSimulator ''3440'' ''12345'' 1570 670) 110 120 ''DS'' 1 ''CL (Lean clay)'' 8
        \<lparr>normals = sconst 0, units = sconst 0, picks = sconst 1\<rparr> = Inr (c, r'))
   \<and> (\<exists>c r'. calculate_moisture_count (TroxlerGaugeSimulator ''3440'' ''12345'' 1570 670) 8 1 ''CL (Lean clay)''
        \<lparr>normals = sconst 0, units = sconst 0, picks = sconst 1\<rparr> = Inr (c, r'))"
  using C7_completion [where t = 1 and dd = "-2000" and wd = 120 and depth = "''DS''"
      and soil = "''CL (Lean clay)''" and gd = 8 and m = 8
      and g = "TroxlerGaugeSimulator ''3440'' ''12345'' 1570 670"
      and r = "\<lparr>normals = sconst 0, units = sconst 0, picks = sconst 1\<rparr>"]
    C7_completion [where t = "-1" and dd = 110 and wd = 120 and depth = "''DS''"
      and soil = "''CL (Lean clay)''" and gd = 8 and m = 8
      and g = "TroxlerGaugeSimulator ''3440'' ''12345'' 1570 670"
      and r = "\<lparr>normals = sconst 0, units = sconst 0, picks = sconst 1\<rparr>"]
    C7_completion [where t = 1 and dd = 110 and wd = 120 and depth = "''DS''"
      and soil = "''CL (Lean clay)''" and gd = 8 and m = 8
      and mo = "''3440''" and se = "''12345''" and sd = 1570 and sm = 670
      and r = "\<lparr>normals = sconst 0, units = sconst 0, picks = sconst 1\<rparr>"]
    sample_inputs_in_range sample_inputs_moderate
  by blast

text \<open>
  The claim C8 as it is worded fails where the linear base is zero: for silty gravel at a
  dry density of 160 the base count is 0 at every duration.
\<close>

theorem C8_zero_base_counterexample:
  "\<not> magnitude (density_base_count (TroxlerGaugeSimulator ''3440'' ''12345'' 1570 670) 160
          ''DS'' 1 ''GM (Silty gravel)'' 8)
     < magnitude (density_base_count (TroxlerGaugeSimulator ''3440'' ''12345'' 1570 670) 160
          ''DS'' 4 ''GM (Silty gravel)'' 8)"
  by (simp add: magnitude_def density_base_count_def Let_def dict_get_def
      TroxlerGaugeSimulator_def density_table_def)

theorem C8_duration_scaling_witness:
  "(0 :: real) \<le> 1 \<and> (1 :: real) < 4
   \<and> magnitude (density_base_count (TroxlerGaugeSimulator ''3440'' ''12345'' 1570 670) 110
          ''DS'' 1 ''CL (Lean clay)'' 8) \<noteq> 0
   \<and> magnitude (moisture_base_count (TroxlerGaugeSimulator ''3440'' ''12345'' 1570 670) 8
          1 ''CL (Lean clay)'') \<noteq> 0
   \<and> magnitude (density_base_count (TroxlerGaugeSimulator ''3440'' ''12345'' 1570 670) 110
          ''DS'' 1 ''CL (Lean clay)'' 8)
     < magnitude (density_base_count (TroxlerGaugeSimulator ''3440'' ''12345'' 1570 670) 110
          ''DS'' 4 ''CL (Lean clay)'' 8)
   \<and> magnitude (moisture_base_count (TroxlerGaugeSimulator ''3440'' ''12345'' 1570 670) 8
          1 ''CL (Lean clay)'')
     < magnitude (moisture_base_count (TroxlerGaugeSimulator ''3440'' ''12345'' 1570 670) 8
          4 ''CL (Lean clay)'')"
proof -
  have d: "magnitude (density_base_count (TroxlerGaugeSimulator ''3440'' ''12345'' 1570 670) 110
          ''DS'' 1 ''CL (Lean clay)'' 8) \<noteq> 0"
    by (simp add: magnitude_def density_base_CL)
  have m: "magnitude (moisture_base_count (TroxlerGaugeSimulator ''3440'' ''12345'' 1570 670) 8
          1 ''CL (Lean clay)'') \<noteq> 0"
    by (simp add: magnitude_def moisture_base_CL)
  have p: "(0 :: real) \<le> 1" "(1 :: real) < 4" by simp_all
  show ?thesis
    using d m p C8_duration_scaling [where ?d1.0 = 1 and ?d2.0 = 4 and dd = 110 and depth = "''DS''"
      and soil = "''CL (Lean clay)''" and gd = 8 and m = 8
      and g = "TroxlerGaugeSimulator ''3440'' ''12345'' 1570 670"]
    by blast
qed

theorem C3_unknown_soil_defaults_witness:
  "''Gravel'' \<notin> dom (soil_density_equations (TroxlerGaugeSimulator ''3440'' ''12345'' 1570 670))
   \<and> ''Gravel'' \<notin> dom (soil_moisture_factors (TroxlerGaugeSimulator ''3440'' ''12345'' 1570 670))
   \<and> (0 :: real) \<le> 1 \<and> (-1000 :: real) \<le> 110
   \<and> moderate 1 \<and> moderate 110 \<and> moderate 8
   \<and> moderate (std_density_count (TroxlerGaugeSimulator ''3440'' ''12345'' 1570 670))
   \<and> moderate (std_moisture_count (TroxlerGaugeSimulator ''3440'' ''12345'' 1570 670))
   \<and> calculate_density_count (TroxlerGaugeSimulator ''3440'' ''12345'' 1570 670)
        110 120 ''DS'' 1 ''Gravel'' 8 \<lparr>normals = sconst 0, units = sconst 0, picks = sconst 1\<rparr>
      = density_count_with_coefficients 4986 (-34.6) (std_density_count (TroxlerGaugeSimulator ''3440'' ''12345'' 1570 670))
          110 ''DS'' 1 8 \<lparr>normals = sconst 0, units = sconst 0, picks = sconst 1\<rparr>
   \<and> calculate_moisture_count (TroxlerGaugeSimulator ''3440'' ''12345'' 1570 670) 8 1 ''Gravel'' \<lparr>normals = sconst 0, units = sconst 0, picks = sconst 1\<rparr>
      = moisture_count_with_factor 1.0 (std_moisture_count (TroxlerGaugeSimulator ''3440'' ''12345'' 1570 670)) 8 1 \<lparr>normals = sconst 0, units = sconst 0, picks = sconst 1\<rparr>
   \<and> (\<exists>c r'. calculate_density_count (TroxlerGaugeSimulator ''3440'' ''12345'' 1570 670)
        110 120 ''DS'' 1 ''Gravel'' 8 \<lparr>normals = sconst 0, units = sconst 0, picks = sconst 1\<rparr> = Inr (c, r'))
   \<and> (\<exists>c r'. calculate_moisture_count (TroxlerGaugeSimulator ''3440'' ''12345'' 1570 670)
        8 1 ''Gravel'' \<lparr>normals = sconst 0, units = sconst 0, picks = sconst 1\<rparr> = Inr (c, r'))"
proof -
  have d: "''Gravel'' \<notin> dom (soil_density_equations (TroxlerGaugeSimulator ''3440'' ''12345'' 1570 670))"
    by (simp add: TroxlerGaugeSimulator_def density_table_def dom_def)
  have m: "''Gravel'' \<notin> dom (soil_moisture_factors (TroxlerGaugeSimulator ''3440'' ''12345'' 1570 670))"
    by (simp add: TroxlerGaugeSimulator_def moisture_table_def dom_def)
  have s: "moderate (std_density_count (TroxlerGaugeSimulator ''3440'' ''12345'' 1570 670))"
    "moderate (std_moisture_count (TroxlerGaugeSimulator ''3440'' ''12345'' 1570 670))"
    by (simp_all add: TroxlerGaugeSimulator_def moderate_def)
  show ?thesis
    using d m s sample_inputs_in_range sample_inputs_moderate
      C3_unknown_soil_defaults [OF d m, where t = 1 and dd = 110 and wd = 120
      and depth = "''DS''" and gd = 8 and m = 8
      and r = "\<lparr>normals = sconst 0, units = sconst 0, picks = sconst 1\<rparr>"]
    by blast
qed

end
